theory Spec2Isabelle
  imports Main "HOL-Library.Word" "HOL-Library.Sublist" "HOL-Library.Multiset"
begin

section \<open>JavaScript values used by the challenge page\<close>

text \<open>
  A JavaScript string is a sequence of UTF-16 code units. String literals of the
  source are all ASCII, so they are written through \<open>ascii\<close>.
\<close>

type_synonym jsstring = "16 word list"

definition ascii :: "string \<Rightarrow> jsstring" where
  "ascii s = map (\<lambda>c. of_nat (of_char c)) s"

text \<open>
  \<open>String.prototype.trim\<close> removes WhiteSpace and LineTerminator code points
  (ECMAScript: TAB, LF, VT, FF, CR, SP, NBSP, the Unicode space separators,
  LS, PS and the byte order mark) from both ends.
\<close>

definition isWhiteSpace :: "16 word \<Rightarrow> bool" where
  "isWhiteSpace c =
     (c = 0x9 \<or> c = 0xA \<or> c = 0xB \<or> c = 0xC \<or> c = 0xD \<or> c = 0x20 \<or> c = 0xA0
      \<or> c = 0x1680 \<or> (0x2000 \<le> c \<and> c \<le> 0x200A) \<or> c = 0x2028 \<or> c = 0x2029
      \<or> c = 0x202F \<or> c = 0x205F \<or> c = 0x3000 \<or> c = 0xFEFF)"

definition trim :: "jsstring \<Rightarrow> jsstring" where
  "trim s = rev (dropWhile isWhiteSpace (rev (dropWhile isWhiteSpace s)))"

text \<open>\<open>s.includes(sub)\<close>: \<open>sub\<close> occurs in \<open>s\<close> as a contiguous run.\<close>

fun str_includes :: "jsstring \<Rightarrow> jsstring \<Rightarrow> bool" where
  "str_includes [] sub = (sub = [])"
| "str_includes (c # cs) sub = (prefix sub (c # cs) \<or> str_includes cs sub)"

text \<open>
  A JavaScript array may have holes; an element is \<open>None\<close> where the array holds
  nothing (it reads as \<open>undefined\<close>). Assigning past the end extends the array.
\<close>

definition array_set :: "'a option list \<Rightarrow> nat \<Rightarrow> 'a \<Rightarrow> 'a option list" where
  "array_set xs i v =
     (if i < length xs then xs[i := Some v]
      else xs @ replicate (i - length xs) None @ [Some v])"

text \<open>\<open>showHints.filter(Boolean).length\<close>: the number of entries that are \<open>true\<close>.\<close>

definition count_truthy :: "bool option list \<Rightarrow> int" where
  "count_truthy xs = int (length (filter (\<lambda>x. x = Some True) xs))"

text \<open>\<open>x || 0\<close> on a nullable number column.\<close>

fun or_zero :: "int option \<Rightarrow> int" where
  "or_zero None = 0"
| "or_zero (Some n) = n"

section \<open>The store: tables of the schema\<close>

type_synonym uuid = jsstring

text \<open>
  Rows of \<open>profiles\<close> and \<open>user_progress\<close> with the columns the pages read or
  write. Nullable columns are options. Timestamps are numbers. A table is the
  list of its rows in the order in which a scan of the store finds them.
\<close>

record profile_row =
  user_id :: uuid
  username :: "jsstring option"
  total_lessons_completed :: "int option"
  total_points :: "int option"
  current_streak :: "int option"
  best_streak :: "int option"
  created_at :: int
  updated_at :: int

record progress_row =
  up_user_id :: uuid
  lesson_id :: uuid
  completed_at :: int
  time_taken :: "int option"
  up_attempts :: "int option"
  hints_used :: "int option"

record database =
  profiles :: "profile_row list"
  user_progress :: "progress_row list"

datatype store_error = UniqueViolation | NoRows | MultipleRows | OutOfRange

text \<open>
  \<open>supabase.from('user_progress').insert(row)\<close>. The table is declared with
  \<open>UNIQUE(user_id, lesson_id)\<close>: a second row for the same pair is refused and
  the table stays as it was. The client resolves with the error as a value;
  it does not throw. \<open>completed_at\<close> defaults to \<open>now()\<close>, \<open>time_taken\<close> to null.
  The two counts the page sends are the attempts of the session and the
  number of hints shown.
\<close>

definition same_pair :: "progress_row \<Rightarrow> progress_row \<Rightarrow> bool" where
  "same_pair r x = (up_user_id x = up_user_id r \<and> lesson_id x = lesson_id r)"

definition insert_progress :: "progress_row \<Rightarrow> database \<Rightarrow> store_error option \<times> database" where
  "insert_progress r d =
     (if filter (same_pair r) (user_progress d) \<noteq> [] then (Some UniqueViolation, d)
      else (None, d\<lparr>user_progress := user_progress d @ [r]\<rparr>))"

text \<open>
  \<open>.select('total_lessons_completed, total_points').eq('user_id', u).single()\<close>:
  the two columns of the one matching row; an error value when there is no row
  or more than one.
\<close>

definition select_profile_single :: "uuid \<Rightarrow> database \<Rightarrow> store_error + (int option \<times> int option)" where
  "select_profile_single u d =
     (case filter (\<lambda>p. user_id p = u) (profiles d) of
        [] \<Rightarrow> Inl NoRows
      | [p] \<Rightarrow> Inr (total_lessons_completed p, total_points p)
      | _ \<Rightarrow> Inl MultipleRows)"

text \<open>The values an \<open>INTEGER\<close> column of the schema takes: 32 bits, signed.\<close>

definition int4 :: "int \<Rightarrow> bool" where
  "int4 n = (- 2147483648 \<le> n \<and> n \<le> 2147483647)"

text \<open>
  \<open>.update({total_lessons_completed, total_points}).eq('user_id', u)\<close>. Both
  columns are \<open>INTEGER\<close>: a value out of range is refused, the table stays
  as it was, and the error comes back as a value. Otherwise the store writes
  a new version of every matching row, with \<open>updated_at\<close> stamped by the
  table's trigger; a scan finds the new versions after the rows that were
  not touched.
\<close>

definition update_profile :: "uuid \<Rightarrow> int \<Rightarrow> int \<Rightarrow> int \<Rightarrow> database \<Rightarrow> store_error option \<times> database" where
  "update_profile u now tlc tp d =
     (if int4 tlc \<and> int4 tp
      then (None,
            d\<lparr>profiles :=
                filter (\<lambda>p. user_id p \<noteq> u) (profiles d)
                @ map (\<lambda>p. p\<lparr>total_lessons_completed := Some tlc, total_points := Some tp,
                              updated_at := now\<rparr>)
                    (filter (\<lambda>p. user_id p = u) (profiles d))\<rparr>)
      else (Some OutOfRange, d))"

section \<open>The challenge page (pages/Challenge.tsx)\<close>

record lesson =
  l_id :: uuid
  title :: jsstring
  language :: jsstring
  difficulty :: jsstring
  description :: jsstring
  starter_code :: jsstring
  expected_output :: jsstring
  hints :: "jsstring list option"
  points :: int

record auth_user =
  uid :: uuid

datatype toast =
    CorrectSolution int
  | HintUnlocked
  | NotQuiteRight int

text \<open>
  The component's state hooks, together with what it does to the outside:
  the toasts shown (oldest first), whether confetti was fired, the errors
  written to the console, and the store.
\<close>

record challenge_state =
  user :: "auth_user option"
  lessons :: "lesson list"
  currentLesson :: "lesson option"
  code :: jsstring
  output_txt :: jsstring
  showHints :: "bool option list"
  isRunning :: bool
  attempts :: int
  isFirstChallenge :: bool
  toasts :: "toast list"
  confetti :: bool
  console_errors :: "store_error list"
  db :: database

text \<open>
  \<open>runCode\<close>, after its timer has fired. The simulation looks at the code only
  for the one Python lesson; every other lesson gets the fixed line followed by
  the trimmed expected output.
\<close>

definition runCode :: "challenge_state \<Rightarrow> challenge_state" where
  "runCode s =
     (case currentLesson s of
        None \<Rightarrow> s\<lparr>isRunning := False\<rparr>
      | Some l \<Rightarrow>
          let trimmedCode = trim (code s);
              expectedOutput = trim (expected_output l)
          in if language l = ascii ''python'' \<and> title l = ascii ''Off-by-One Error in Loop''
             then (if str_includes trimmedCode (ascii ''range(1, 6)'')
                   then s\<lparr>output_txt := expectedOutput, isRunning := False\<rparr>
                   else if str_includes trimmedCode (ascii ''range(1, 7)'')
                   then s\<lparr>output_txt := ascii ''1\<newline>2\<newline>3\<newline>4\<newline>5\<newline>6'', isRunning := False\<rparr>
                   else s\<lparr>output_txt := ascii ''Error: Invalid code or syntax error'',
                          isRunning := False\<rparr>)
             else s\<lparr>output_txt := ascii ''Code executed successfully!\<newline>'' @ expectedOutput,
                    isRunning := False\<rparr>)"

text \<open>
  \<open>saveProgress(attemptCount)\<close>. The result of the insert is dropped; of the
  select only \<open>data\<close> is read, which is null unless exactly one profile row
  matched; the result of the update is dropped too. The sums are sums of
  column values, which JavaScript computes exactly. Every store call resolves with its error as a value, so the
  \<open>try\<close> block runs to its end and the function's promise always resolves:
  the result is \<open>Inr\<close> of the state reached, \<open>Inl\<close> would be an error reaching
  the caller.
\<close>

definition saveProgress :: "int \<Rightarrow> int \<Rightarrow> challenge_state \<Rightarrow> store_error + challenge_state" where
  "saveProgress now attemptCount s =
     (case (user s, currentLesson s) of
        (Some u, Some l) \<Rightarrow>
          let hintsUsed = count_truthy (showHints s);
              (_, d1) = insert_progress
                          \<lparr>up_user_id = uid u, lesson_id = l_id l, completed_at = now,
                           time_taken = None, up_attempts = Some attemptCount,
                           hints_used = Some hintsUsed\<rparr> (db s)
          in (case select_profile_single (uid u) d1 of
                Inr (tlc, tp) \<Rightarrow>
                  let (_, d2) = update_profile (uid u) now (or_zero tlc + 1)
                                  (or_zero tp + points l) d1
                  in Inr (s\<lparr>db := d2\<rparr>)
              | Inl _ \<Rightarrow> Inr (s\<lparr>db := d1\<rparr>))
      | _ \<Rightarrow> Inr s)"

text \<open>
  \<open>checkSolution\<close>. \<open>saveProgress\<close> is started without being awaited; its
  promise cannot reject, and a rejection would not reach \<open>checkSolution\<close>
  anyway, so only the state it leaves is kept. The timer set after a correct
  solution, which moves on to the next lesson a second and a half later, is
  a later step and not part of this function.
\<close>

definition checkSolution :: "int \<Rightarrow> challenge_state \<Rightarrow> challenge_state" where
  "checkSolution now s =
     (case currentLesson s of
        None \<Rightarrow> s
      | Some l \<Rightarrow>
          let actualOutput = trim (output_txt s);
              expectedOutput = trim (expected_output l);
              newAttempts = attempts s + 1;
              s1 = s\<lparr>attempts := newAttempts\<rparr>
          in if actualOutput = expectedOutput
             then (let s2 = (if isFirstChallenge s then s1\<lparr>confetti := True\<rparr> else s1);
                       s3 = s2\<lparr>toasts := toasts s2 @ [CorrectSolution (points l)]\<rparr>
                   in case saveProgress now newAttempts s3 of
                        Inr s4 \<Rightarrow> s4
                      | Inl _ \<Rightarrow> s3)
             else if newAttempts = 2 \<and> (case hints l of None \<Rightarrow> False | Some hs \<Rightarrow> length hs > 0)
             then s1\<lparr>showHints := array_set (showHints s) 0 True,
                     toasts := toasts s1 @ [HintUnlocked]\<rparr>
             else s1\<lparr>toasts := toasts s1 @ [NotQuiteRight newAttempts]\<rparr>)"

text \<open>\<open>showHint(index)\<close>: the manual reveal, and \<open>resetCode\<close>.\<close>

definition showHint :: "nat \<Rightarrow> challenge_state \<Rightarrow> challenge_state" where
  "showHint index s = s\<lparr>showHints := array_set (showHints s) index True\<rparr>"

definition resetCode :: "challenge_state \<Rightarrow> challenge_state" where
  "resetCode s =
     (case currentLesson s of
        None \<Rightarrow> s
      | Some l \<Rightarrow> s\<lparr>code := starter_code l, output_txt := [], attempts := 0, showHints := []\<rparr>)"

text \<open>The verdict a toast of \<open>checkSolution\<close> stands for.\<close>

datatype verdict = Pass | Fail

fun verdict_of :: "toast \<Rightarrow> verdict" where
  "verdict_of (CorrectSolution _) = Pass"
| "verdict_of HintUnlocked = Fail"
| "verdict_of (NotQuiteRight _) = Fail"

text \<open>The hint indices shown as revealed: \<open>showHints[i]\<close> is truthy.\<close>

definition revealed :: "bool option list \<Rightarrow> nat set" where
  "revealed xs = {i. i < length xs \<and> xs ! i = Some True}"

text \<open>What \<open>checkSolution\<close> decided: the verdict of the toast it showed last.\<close>

definition checkSolution_verdict :: "int \<Rightarrow> challenge_state \<Rightarrow> verdict" where
  "checkSolution_verdict now s = verdict_of (last (toasts (checkSolution now s)))"

text \<open>Whether \<open>checkSolution\<close> took its hint branch: it showed "Hint Unlocked!".\<close>

definition auto_hint :: "int \<Rightarrow> challenge_state \<Rightarrow> bool" where
  "auto_hint now s = (last (toasts (checkSolution now s)) = HintUnlocked)"

section \<open>The leaderboard page (pages/Leaderboard.tsx)\<close>

record leaderboard_user =
  lb_user_id :: uuid
  lb_username :: "jsstring option"
  lb_total_points :: "int option"
  lb_total_lessons_completed :: "int option"
  lb_current_streak :: "int option"
  rank :: int

text \<open>
  \<open>.order('total_points', { ascending: false })\<close> names one sort key and no
  second one. The store puts a null before every number in a descending
  order. Rows with equal keys come in an order the query does not fix; here
  they keep the order of the table given, so every order of ties is reached
  by some table.
\<close>

fun desc_le :: "int option \<Rightarrow> int option \<Rightarrow> bool" where
  "desc_le None _ = True"
| "desc_le (Some x) None = False"
| "desc_le (Some x) (Some y) = (y \<le> x)"

fun insert_desc :: "profile_row \<Rightarrow> profile_row list \<Rightarrow> profile_row list" where
  "insert_desc p [] = [p]"
| "insert_desc p (q # qs) =
     (if desc_le (total_points p) (total_points q) then p # q # qs
      else q # insert_desc p qs)"

definition order_by_total_points_desc :: "profile_row list \<Rightarrow> profile_row list" where
  "order_by_total_points_desc rows = foldr insert_desc rows []"

text \<open>
  \<open>fetchLeaderboard\<close>: the first 50 rows of the ordered table (the rows the
  query may see), each with \<open>rank: index + 1\<close>. The result is what
  \<open>setLeaderboard\<close> receives.
\<close>

definition with_rank :: "nat \<times> profile_row \<Rightarrow> leaderboard_user" where
  "with_rank ip =
     \<lparr>lb_user_id = user_id (snd ip), lb_username = username (snd ip),
      lb_total_points = total_points (snd ip),
      lb_total_lessons_completed = total_lessons_completed (snd ip),
      lb_current_streak = current_streak (snd ip),
      rank = int (fst ip) + 1\<rparr>"

definition fetchLeaderboard :: "profile_row list \<Rightarrow> leaderboard_user list" where
  "fetchLeaderboard rows =
     (let data = take 50 (order_by_total_points_desc rows)
      in map with_rank (enumerate 0 data))"










section \<open>Badges\<close>

text \<open>The enum \<open>badge_type\<close> and the table \<open>user_badges\<close> of the schema.\<close>

datatype badge_type =
  first_debug | consecutive_solves | language_master | speed_demon | accuracy_ace

record user_badge =
  ub_user_id :: uuid
  badge_id :: uuid
  earned_at :: int

text \<open>
  Modelled from the spec: the Badge of the data model (spec section 3), an
  identity, a type and a numeric requirement threshold. The pages only list
  badges; nothing under the sources evaluates one.
\<close>

record badge =
  b_id :: uuid
  b_type :: badge_type
  requirement_value :: int

text \<open>
  Modelled from the spec: one completion of the user's history joined with
  the lesson's metadata (spec sections 3 and 4.4), as the badge evaluator
  reads it. The evaluator is not in the sources.
\<close>

record completion =
  cm_lesson_id :: uuid
  cm_language :: jsstring
  cm_time_taken :: "int option"
  cm_hints_used :: int

text \<open>
  Modelled from the spec: the type-specific predicates of the badge evaluator
  (spec section 4.4), which the sources do not contain. \<open>language_master\<close>
  asks for some language of the catalog all of whose lessons are among the
  distinct completed ones.
\<close>

definition badge_satisfied :: "profile_row \<Rightarrow> completion list \<Rightarrow> lesson list \<Rightarrow> badge \<Rightarrow> bool" where
  "badge_satisfied profile history catalog b =
     (case b_type b of
        first_debug \<Rightarrow> 1 \<le> or_zero (total_lessons_completed profile)
      | consecutive_solves \<Rightarrow> requirement_value b \<le> or_zero (current_streak profile)
      | language_master \<Rightarrow>
          list_ex (\<lambda>lang.
              length (filter (\<lambda>l. language l = lang) catalog)
                \<le> length (remdups (map cm_lesson_id (filter (\<lambda>c. cm_language c = lang) history))))
            (map language catalog)
      | speed_demon \<Rightarrow>
          list_ex (\<lambda>c. case cm_time_taken c of None \<Rightarrow> False | Some t \<Rightarrow> t \<le> requirement_value b)
            history
      | accuracy_ace \<Rightarrow>
          requirement_value b \<le> int (length (filter (\<lambda>c. cm_hints_used c = 0) history)))"

text \<open>
  Modelled from the spec: whether the user already owns a badge (spec section
  4.4, "already-owned badges are skipped"): \<open>user_badges\<close> has a row for
  the pair. The badge evaluator that asks this is not in the sources.
\<close>

definition owns :: "user_badge list \<Rightarrow> uuid \<Rightarrow> uuid \<Rightarrow> bool" where
  "owns ubs u b = (filter (\<lambda>r. ub_user_id r = u \<and> badge_id r = b) ubs \<noteq> [])"

text \<open>
  Modelled from the spec: \<open>grantBadge(user, badge)\<close> of the badge store (spec
  section 6), an idempotent insert: a duplicate grant is a no-op and not an
  error. The sources never insert into \<open>user_badges\<close>.
\<close>

definition grantBadge :: "int \<Rightarrow> uuid \<Rightarrow> uuid \<Rightarrow> user_badge list \<Rightarrow> store_error option \<times> user_badge list" where
  "grantBadge now u b ubs =
     (if owns ubs u b then (None, ubs)
      else (None, ubs @ [\<lparr>ub_user_id = u, badge_id = b, earned_at = now\<rparr>]))"

text \<open>
  Modelled from the spec: \<open>evaluateBadges(user, profile, history)\<close> (spec
  section 4.4), absent from the sources: the badges of the catalog the user
  does not own yet and whose predicate holds are the newly earned ones.
\<close>

definition evaluateBadges ::
  "badge list \<Rightarrow> lesson list \<Rightarrow> uuid \<Rightarrow> profile_row \<Rightarrow> completion list \<Rightarrow> user_badge list \<Rightarrow> badge list" where
  "evaluateBadges badges catalog u profile history ubs =
     filter (\<lambda>b. \<not> owns ubs u (b_id b) \<and> badge_satisfied profile history catalog b) badges"

text \<open>
  Modelled from the spec: the grants that follow an evaluation (spec section
  4.4, "any predicate newly satisfied causes a UserBadge to be created"), one
  \<open>grantBadge\<close> for each newly earned badge. No such code is in the sources.
\<close>

definition grant_all :: "int \<Rightarrow> uuid \<Rightarrow> badge list \<Rightarrow> user_badge list \<Rightarrow> user_badge list" where
  "grant_all now u bs ubs = foldl (\<lambda>t b. snd (grantBadge now u (b_id b) t)) ubs bs"

text \<open>
  Modelled from the spec: one run of the badge evaluator (spec section 4.4),
  evaluation followed by the grants, on the table of the user's badges. The
  sources have no such run.
\<close>

definition run_badge_evaluation ::
  "badge list \<Rightarrow> lesson list \<Rightarrow> uuid \<Rightarrow> profile_row \<Rightarrow> completion list \<Rightarrow> int \<Rightarrow> user_badge list \<Rightarrow> user_badge list" where
  "run_badge_evaluation badges catalog u profile history now ubs =
     grant_all now u (evaluateBadges badges catalog u profile history ubs) ubs"

text \<open>The rows of \<open>user_badges\<close> for one (user, badge) pair.\<close>

definition badge_rows :: "user_badge list \<Rightarrow> uuid \<Rightarrow> uuid \<Rightarrow> user_badge list" where
  "badge_rows ubs u b = filter (\<lambda>r. ub_user_id r = u \<and> badge_id r = b) ubs"

text \<open>\<open>UNIQUE(user_id, badge_id)\<close>: no two rows of the table share the pair.\<close>

definition unique_user_badge :: "user_badge list \<Rightarrow> bool" where
  "unique_user_badge ubs = distinct (map (\<lambda>r. (ub_user_id r, badge_id r)) ubs)"

section \<open>Concrete lessons, users and states\<close>

text \<open>
  The state a completion leaves: \<open>saveProgress\<close> always resolves, so this is
  the state it reached.
\<close>

definition after_save :: "int \<Rightarrow> int \<Rightarrow> challenge_state \<Rightarrow> challenge_state" where
  "after_save now attemptCount s =
     (case saveProgress now attemptCount s of Inr s' \<Rightarrow> s' | Inl _ \<Rightarrow> s)"

text \<open>The seeded JavaScript lesson "Equality vs Identity".\<close>

definition lesson_equality :: lesson where
  "lesson_equality =
     \<lparr>l_id = ascii ''lesson-3'', title = ascii ''Equality vs Identity'',
      language = ascii ''javascript'', difficulty = ascii ''easy'',
      description = ascii ''Fix the comparison to work correctly with the number 5.'',
      starter_code = ascii ''console.log(checkNumber(5));'',
      expected_output = ascii ''Number is five'',
      hints = Some [ascii ''Check the data types being compared.'',
                    ascii ''Use == for loose equality or convert types.''],
      points = 10\<rparr>"

text \<open>A C++ lesson whose expected output ends with the newline the program prints.\<close>

definition lesson_newline :: lesson where
  "lesson_newline =
     \<lparr>l_id = ascii ''lesson-6'', title = ascii ''Memory Leak'',
      language = ascii ''cpp'', difficulty = ascii ''hard'',
      description = ascii ''Fix the memory management issue.'',
      starter_code = ascii ''int main() { return 0; }'',
      expected_output = ascii ''42\<newline>'',
      hints = None,
      points = 25\<rparr>"

definition alice :: auth_user where
  "alice = \<lparr>uid = ascii ''user-a''\<rparr>"

definition bob :: auth_user where
  "bob = \<lparr>uid = ascii ''user-b''\<rparr>"

definition profile_alice :: profile_row where
  "profile_alice =
     \<lparr>user_id = ascii ''user-a'', username = Some (ascii ''alice''),
      total_lessons_completed = Some 9, total_points = Some 90,
      current_streak = Some 9, best_streak = Some 9,
      created_at = 1, updated_at = 1\<rparr>"

definition profile_bob :: profile_row where
  "profile_bob =
     \<lparr>user_id = ascii ''user-b'', username = Some (ascii ''bob''),
      total_lessons_completed = Some 10, total_points = Some 100,
      current_streak = Some 0, best_streak = Some 3,
      created_at = 2, updated_at = 2\<rparr>"

text \<open>Alice on the JavaScript lesson, with the expected output in the terminal.\<close>

definition state_solved :: challenge_state where
  "state_solved =
     \<lparr>user = Some alice, lessons = [lesson_equality], currentLesson = Some lesson_equality,
      code = ascii ''console.log(checkNumber(5));'', output_txt = ascii ''Number is five'',
      showHints = [], isRunning = False, attempts = 0, isFirstChallenge = False,
      toasts = [], confetti = False, console_errors = [],
      db = \<lparr>profiles = [profile_alice, profile_bob], user_progress = []\<rparr>\<rparr>"

text \<open>The same after one failed attempt, with a wrong output in the terminal.\<close>

definition state_second_try :: challenge_state where
  "state_second_try = state_solved\<lparr>output_txt := ascii ''Number is not five'', attempts := 1\<rparr>"

text \<open>Alice has completed the lesson before: three attempts, one hint, at time 1.\<close>

definition earlier_record :: progress_row where
  "earlier_record =
     \<lparr>up_user_id = ascii ''user-a'', lesson_id = ascii ''lesson-3'', completed_at = 1,
      time_taken = None, up_attempts = Some 3, hints_used = Some 1\<rparr>"

definition later_record :: progress_row where
  "later_record =
     \<lparr>up_user_id = ascii ''user-a'', lesson_id = ascii ''lesson-3'', completed_at = 5,
      time_taken = None, up_attempts = Some 1, hints_used = Some 0\<rparr>"

definition state_repeat :: challenge_state where
  "state_repeat =
     state_solved\<lparr>db := \<lparr>profiles = [profile_alice, profile_bob],
                          user_progress = [earlier_record]\<rparr>\<rparr>"

text \<open>Alice's points are at the top of the range of the column.\<close>

definition state_full :: challenge_state where
  "state_full =
     state_solved\<lparr>db := \<lparr>profiles = [profile_alice\<lparr>total_points := Some 2147483647\<rparr>,
                                       profile_bob],
                          user_progress = []\<rparr>\<rparr>"

text \<open>Alice has no profile row.\<close>

definition state_no_profile :: challenge_state where
  "state_no_profile = state_solved\<lparr>db := \<lparr>profiles = [profile_bob], user_progress = []\<rparr>\<rparr>"

text \<open>Alice on the C++ lesson, before the code is run.\<close>

definition state_cpp :: challenge_state where
  "state_cpp =
     state_solved\<lparr>lessons := [lesson_newline], currentLesson := Some lesson_newline,
                  code := ascii ''int main() { return 0; }'', output_txt := []\<rparr>"

text \<open>Two profiles with 100 points each; the first was created before the second.\<close>

definition profile_early :: profile_row where
  "profile_early =
     \<lparr>user_id = ascii ''user-c'', username = Some (ascii ''carol''),
      total_lessons_completed = Some 8, total_points = Some 100,
      current_streak = Some 2, best_streak = Some 2,
      created_at = 1, updated_at = 7\<rparr>"

definition profile_late :: profile_row where
  "profile_late =
     \<lparr>user_id = ascii ''user-d'', username = Some (ascii ''dave''),
      total_lessons_completed = Some 10, total_points = Some 100,
      current_streak = Some 1, best_streak = Some 4,
      created_at = 2, updated_at = 3\<rparr>"







text \<open>The seeded badge "First Debug".\<close>

definition badge_first :: badge where
  "badge_first = \<lparr>b_id = ascii ''badge-1'', b_type = first_debug, requirement_value = 1\<rparr>"

lemmas example_defs =
  lesson_equality_def lesson_newline_def alice_def profile_alice_def profile_bob_def
  state_solved_def state_second_try_def earlier_record_def later_record_def
  state_repeat_def state_no_profile_def state_cpp_def profile_early_def profile_late_def
  state_full_def

section \<open>Trimming\<close>

lemma trim_fixed:
  assumes "s \<noteq> []" "\<not> isWhiteSpace (hd s)" "\<not> isWhiteSpace (last s)"
  shows "trim s = s"
proof -
  from assms have 1: "dropWhile isWhiteSpace s = s" by (cases s) auto
  from assms have "rev s \<noteq> []" "\<not> isWhiteSpace (hd (rev s))" by (auto simp: hd_rev)
  then have 2: "dropWhile isWhiteSpace (rev s) = rev s" by (cases "rev s") auto
  show ?thesis by (simp add: trim_def 1 2)
qed

lemma trim_last:
  assumes "trim s \<noteq> []"
  shows "\<not> isWhiteSpace (last (trim s))"
proof -
  let ?t = "dropWhile isWhiteSpace (rev (dropWhile isWhiteSpace s))"
  from assms have ne: "?t \<noteq> []" by (simp add: trim_def)
  then have "\<not> isWhiteSpace (hd ?t)" by (rule hd_dropWhile)
  with ne show ?thesis by (simp add: trim_def last_rev)
qed

lemma trim_Nil: "trim [] = []"
  by (simp add: trim_def)

section \<open>What saveProgress and checkSolution leave alone\<close>

lemma saveProgress_Inr: "\<exists>s'. saveProgress now n s = Inr s'"
  by (auto simp: saveProgress_def Let_def split: option.splits sum.splits prod.splits)

lemma saveProgress_only_db:
  "saveProgress now n s = Inr s' \<Longrightarrow> s' = s\<lparr>db := db s'\<rparr>"
  by (auto simp: saveProgress_def Let_def split: option.splits sum.splits prod.splits)

lemma after_save_only_db: "after_save now n s = s\<lparr>db := db (after_save now n s)\<rparr>"
proof -
  obtain s' where sp: "saveProgress now n s = Inr s'" using saveProgress_Inr by blast
  from saveProgress_only_db [OF sp] sp show ?thesis by (simp add: after_save_def)
qed

lemma checkSolution_pass:
  assumes "currentLesson s = Some l" "trim (output_txt s) = trim (expected_output l)"
  shows "checkSolution now s =
           after_save now (attempts s + 1)
             ((if isFirstChallenge s then s\<lparr>attempts := attempts s + 1, confetti := True\<rparr>
               else s\<lparr>attempts := attempts s + 1\<rparr>)
              \<lparr>toasts := toasts s @ [CorrectSolution (points l)]\<rparr>)"
  using assms by (simp add: checkSolution_def after_save_def Let_def split: sum.split)

lemma checkSolution_fail:
  assumes "currentLesson s = Some l" "trim (output_txt s) \<noteq> trim (expected_output l)"
  shows "checkSolution now s =
           (if attempts s + 1 = 2 \<and> (case hints l of None \<Rightarrow> False | Some hs \<Rightarrow> length hs > 0)
            then s\<lparr>attempts := attempts s + 1, showHints := array_set (showHints s) 0 True,
                   toasts := toasts s @ [HintUnlocked]\<rparr>
            else s\<lparr>attempts := attempts s + 1,
                   toasts := toasts s @ [NotQuiteRight (attempts s + 1)]\<rparr>)"
  using assms by (simp add: checkSolution_def Let_def)

lemma checkSolution_last_toast:
  assumes "currentLesson s = Some l"
  shows "last (toasts (checkSolution now s)) =
     (if trim (output_txt s) = trim (expected_output l) then CorrectSolution (points l)
      else if attempts s + 1 = 2 \<and> (case hints l of None \<Rightarrow> False | Some hs \<Rightarrow> length hs > 0)
      then HintUnlocked else NotQuiteRight (attempts s + 1))"
proof (cases "trim (output_txt s) = trim (expected_output l)")
  case True
  have "toasts (checkSolution now s) = toasts s @ [CorrectSolution (points l)]"
    unfolding checkSolution_pass [OF assms True]
    by (subst after_save_only_db) simp
  with True show ?thesis by simp
next
  case False
  then show ?thesis by (simp add: checkSolution_fail [OF assms False])
qed

lemma checkSolution_showHints:
  assumes "currentLesson s = Some l"
  shows "showHints (checkSolution now s) =
     (if trim (output_txt s) \<noteq> trim (expected_output l) \<and> attempts s + 1 = 2
          \<and> (case hints l of None \<Rightarrow> False | Some hs \<Rightarrow> length hs > 0)
      then array_set (showHints s) 0 True else showHints s)"
proof (cases "trim (output_txt s) = trim (expected_output l)")
  case True
  have "showHints (checkSolution now s) = showHints s"
    unfolding checkSolution_pass [OF assms True]
    by (subst after_save_only_db) simp
  with True show ?thesis by simp
next
  case False
  then show ?thesis by (simp add: checkSolution_fail [OF assms False])
qed

lemma checkSolution_attempts:
  assumes "currentLesson s = Some l"
  shows "attempts (checkSolution now s) = attempts s + 1"
proof (cases "trim (output_txt s) = trim (expected_output l)")
  case True
  show ?thesis
    unfolding checkSolution_pass [OF assms True]
    by (subst after_save_only_db) simp
next
  case False
  then show ?thesis by (simp add: checkSolution_fail [OF assms False])
qed

lemma revealed_array_set_0: "revealed (array_set xs 0 True) = insert 0 (revealed xs)"
proof (cases xs)
  case Nil
  then show ?thesis by (auto simp: revealed_def array_set_def)
next
  case (Cons x ys)
  then show ?thesis
    by (auto simp: revealed_def array_set_def nth_Cons split: nat.splits)
qed

section \<open>The attempt evaluation\<close>

text \<open>
  C1. For every lesson and every submitted output, \<open>checkSolution\<close> decides Pass
  exactly when the output, trimmed of leading and trailing white space, equals
  the lesson's expected output, trimmed the same way; in particular an empty
  output passes exactly when the expected output trims to the empty string.
\<close>

theorem checkSolution_verdict_iff:
  assumes "currentLesson s = Some l"
  shows "((checkSolution_verdict now s = Pass) = (trim (output_txt s) = trim (expected_output l)))
       \<and> (output_txt s = [] \<longrightarrow>
            (checkSolution_verdict now s = Pass) = (trim (expected_output l) = []))"
proof -
  have 1: "(checkSolution_verdict now s = Pass) = (trim (output_txt s) = trim (expected_output l))"
    by (simp add: checkSolution_verdict_def checkSolution_last_toast [OF assms])
  have "trim (output_txt s) = []" if "output_txt s = []"
    using that by (simp add: trim_Nil)
  with 1 show ?thesis by auto
qed

theorem checkSolution_verdict_iff_witness:
  "currentLesson state_solved = Some lesson_equality
   \<and> checkSolution_verdict 5 state_solved = Pass
   \<and> checkSolution_verdict 5 state_second_try = Fail"
proof -
  have h1: "currentLesson state_solved = Some lesson_equality"
    by (simp add: state_solved_def)
  have h2: "currentLesson state_second_try = Some lesson_equality"
    by (simp add: state_second_try_def state_solved_def)
  have e1: "trim (output_txt state_solved) = trim (expected_output lesson_equality)"
    by (simp add: state_solved_def lesson_equality_def)
  have e2: "trim (output_txt state_second_try) \<noteq> trim (expected_output lesson_equality)"
    by (simp add: state_second_try_def state_solved_def lesson_equality_def trim_def ascii_def
        isWhiteSpace_def)
  from checkSolution_verdict_iff [OF h1, of 5] e1
  have p: "checkSolution_verdict 5 state_solved = Pass" by simp
  from checkSolution_verdict_iff [OF h2, of 5] e2
  have "checkSolution_verdict 5 state_second_try \<noteq> Pass" by simp
  then have f: "checkSolution_verdict 5 state_second_try = Fail"
    by (cases "checkSolution_verdict 5 state_second_try") simp_all
  from h1 p f show ?thesis by simp
qed

section \<open>Automatic hint\<close>

text \<open>
  C5. \<open>checkSolution\<close> reveals hint 0 by itself exactly when the submission
  fails, the attempt counter after the increment is 2 and the lesson has a
  hint. It does so on no other attempt, and whenever it does not, the
  revealed hints are as they were. The counter goes up by one either way.
\<close>

theorem auto_hint_iff:
  assumes "currentLesson s = Some l"
  shows "(auto_hint now s =
            (trim (output_txt s) \<noteq> trim (expected_output l) \<and> attempts s + 1 = 2
             \<and> (\<exists>hs. hints l = Some hs \<and> hs \<noteq> [])))
       \<and> (auto_hint now s \<longrightarrow>
            showHints (checkSolution now s) = array_set (showHints s) 0 True
            \<and> revealed (showHints (checkSolution now s)) = insert 0 (revealed (showHints s)))
       \<and> (\<not> auto_hint now s \<longrightarrow> showHints (checkSolution now s) = showHints s)
       \<and> (attempts s + 1 \<noteq> 2 \<longrightarrow> \<not> auto_hint now s)
       \<and> attempts (checkSolution now s) = attempts s + 1"
proof -
  have hs: "(case hints l of None \<Rightarrow> False | Some hs \<Rightarrow> length hs > 0)
              = (\<exists>hs. hints l = Some hs \<and> hs \<noteq> [])"
    by (cases "hints l") auto
  have 1: "auto_hint now s =
            (trim (output_txt s) \<noteq> trim (expected_output l) \<and> attempts s + 1 = 2
             \<and> (\<exists>hs. hints l = Some hs \<and> hs \<noteq> []))"
    unfolding auto_hint_def checkSolution_last_toast [OF assms] hs by auto
  have 2: "showHints (checkSolution now s) =
             (if auto_hint now s then array_set (showHints s) 0 True else showHints s)"
    unfolding 1 checkSolution_showHints [OF assms] hs by simp
  have 3: "attempts (checkSolution now s) = attempts s + 1"
    by (rule checkSolution_attempts [OF assms])
  from 1 2 3 show ?thesis by (auto simp: revealed_array_set_0)
qed

theorem auto_hint_iff_witness:
  "currentLesson state_second_try = Some lesson_equality
   \<and> auto_hint 5 state_second_try
   \<and> revealed (showHints (checkSolution 5 state_second_try)) = {0}"
proof -
  have h: "currentLesson state_second_try = Some lesson_equality"
    by (simp add: state_second_try_def state_solved_def)
  have e: "trim (output_txt state_second_try) \<noteq> trim (expected_output lesson_equality)"
    by (simp add: state_second_try_def state_solved_def lesson_equality_def trim_def ascii_def
        isWhiteSpace_def)
  have a: "attempts state_second_try + 1 = 2"
    by (simp add: state_second_try_def state_solved_def)
  have hs: "\<exists>hs. hints lesson_equality = Some hs \<and> hs \<noteq> []"
    by (simp add: lesson_equality_def)
  have r: "revealed (showHints state_second_try) = {}"
    by (simp add: state_second_try_def state_solved_def revealed_def)
  from auto_hint_iff [OF h, of 5] e a hs have 1: "auto_hint 5 state_second_try" by simp
  with auto_hint_iff [OF h, of 5]
  have "revealed (showHints (checkSolution 5 state_second_try))
          = insert 0 (revealed (showHints state_second_try))" by blast
  with r have 2: "revealed (showHints (checkSolution 5 state_second_try)) = {0}" by simp
  from h 1 2 show ?thesis by simp
qed

section \<open>The store operations inside saveProgress\<close>

lemma insert_progress_profiles: "profiles (snd (insert_progress r d)) = profiles d"
  by (simp add: insert_progress_def)

lemma insert_progress_present:
  "filter (same_pair r) (user_progress d) \<noteq> [] \<Longrightarrow> snd (insert_progress r d) = d"
  by (simp add: insert_progress_def)

lemma insert_progress_absent:
  "filter (same_pair r) (user_progress d) = [] \<Longrightarrow>
     user_progress (snd (insert_progress r d)) = user_progress d @ [r]"
  by (simp add: insert_progress_def)

lemma saveProgress_unfold:
  assumes "user s = Some u" "currentLesson s = Some l"
  shows "saveProgress now n s =
     (let d1 = snd (insert_progress
                  \<lparr>up_user_id = uid u, lesson_id = l_id l, completed_at = now,
                   time_taken = None, up_attempts = Some n,
                   hints_used = Some (count_truthy (showHints s))\<rparr> (db s))
      in case select_profile_single (uid u) d1 of
           Inr (tlc, tp) \<Rightarrow>
             Inr (s\<lparr>db := snd (update_profile (uid u) now (or_zero tlc + 1)
                                 (or_zero tp + points l) d1)\<rparr>)
         | Inl _ \<Rightarrow> Inr (s\<lparr>db := d1\<rparr>))"
  using assms by (simp add: saveProgress_def Let_def case_prod_beta split: sum.split)

lemma select_profile_single_one:
  "filter (\<lambda>q. user_id q = u) (profiles d) = [p] \<Longrightarrow>
     select_profile_single u d = Inr (total_lessons_completed p, total_points p)"
  by (simp add: select_profile_single_def)

lemma select_profile_single_none:
  "filter (\<lambda>q. user_id q = u) (profiles d) = [] \<Longrightarrow> select_profile_single u d = Inl NoRows"
  by (simp add: select_profile_single_def)

text \<open>The rows of one user, and the rows of the others, after an update.\<close>

lemma untouched_rows_of:
  "filter (\<lambda>p. user_id p = v) (filter (\<lambda>p. user_id p \<noteq> u) xs)
     = (if v = u then [] else filter (\<lambda>p. user_id p = v) xs)"
  by (induction xs) auto

lemma written_rows_of:
  "filter (\<lambda>p. user_id p = v)
       (map (\<lambda>p. p\<lparr>total_lessons_completed := a, total_points := b, updated_at := t\<rparr>)
          (filter (\<lambda>p. user_id p = u) xs))
     = (if v = u
        then map (\<lambda>p. p\<lparr>total_lessons_completed := a, total_points := b, updated_at := t\<rparr>)
               (filter (\<lambda>p. user_id p = u) xs)
        else [])"
  by (induction xs) auto

lemma update_profile_rows_of:
  "filter (\<lambda>p. user_id p = v) (profiles (snd (update_profile u now a b d)))
     = (if int4 a \<and> int4 b \<and> v = u
        then map (\<lambda>p. p\<lparr>total_lessons_completed := Some a, total_points := Some b,
                          updated_at := now\<rparr>)
               (filter (\<lambda>p. user_id p = u) (profiles d))
        else filter (\<lambda>p. user_id p = v) (profiles d))"
  by (simp add: update_profile_def untouched_rows_of written_rows_of del: filter_filter)

lemma update_profile_others:
  "filter (\<lambda>p. user_id p \<noteq> u) (profiles (snd (update_profile u now a b d)))
     = filter (\<lambda>p. user_id p \<noteq> u) (profiles d)"
proof -
  have "filter (\<lambda>p. user_id p \<noteq> u)
          (map (\<lambda>p. p\<lparr>total_lessons_completed := Some a, total_points := Some b,
                        updated_at := now\<rparr>)
             (filter (\<lambda>p. user_id p = u) xs)) = []" for xs :: "profile_row list"
    by (induction xs) auto
  then show ?thesis by (simp add: update_profile_def)
qed

lemma update_profile_length:
  "length (profiles (snd (update_profile u now a b d))) = length (profiles d)"
proof -
  have "length (filter (\<lambda>p. user_id p \<noteq> u) xs) + length (filter (\<lambda>p. user_id p = u) xs)
          = length xs" for xs :: "profile_row list"
    by (induction xs) auto
  then show ?thesis by (simp add: update_profile_def)
qed

lemma update_profile_streaks:
  "map current_streak (filter (\<lambda>p. user_id p = v) (profiles (snd (update_profile u now a b d))))
     = map current_streak (filter (\<lambda>p. user_id p = v) (profiles d))"
  "map best_streak (filter (\<lambda>p. user_id p = v) (profiles (snd (update_profile u now a b d))))
     = map best_streak (filter (\<lambda>p. user_id p = v) (profiles d))"
  by (simp_all add: update_profile_rows_of comp_def)

lemma moved_rows_mset:
  assumes "\<And>p. f (g p) = f p"
  shows "mset (map f (filter (\<lambda>p. user_id p \<noteq> u) xs @ map g (filter (\<lambda>p. user_id p = u) xs)))
           = mset (map f xs)"
  using assms by (induction xs) auto

lemma update_profile_streaks_mset:
  "mset (map current_streak (profiles (snd (update_profile u now a b d))))
     = mset (map current_streak (profiles d))"
  "mset (map best_streak (profiles (snd (update_profile u now a b d))))
     = mset (map best_streak (profiles d))"
  by (simp_all add: update_profile_def moved_rows_mset del: map_append mset_append mset_map)

lemma update_profile_user_progress:
  "user_progress (snd (update_profile u now a b d)) = user_progress d"
  by (simp add: update_profile_def)

lemma saveProgress_db_cases:
  assumes "saveProgress now n s = Inr s'"
  shows "db s' = db s
       \<or> (\<exists>r. db s' = snd (insert_progress r (db s)))
       \<or> (\<exists>r a b u. db s' = snd (update_profile u now a b (snd (insert_progress r (db s)))))"
proof (cases "user s")
  case None
  with assms show ?thesis by (simp add: saveProgress_def)
next
  case (Some u)
  show ?thesis
  proof (cases "currentLesson s")
    case None
    with Some assms show ?thesis by (simp add: saveProgress_def)
  next
    case l: (Some l)
    let ?r = "\<lparr>up_user_id = uid u, lesson_id = l_id l, completed_at = now,
               time_taken = None, up_attempts = Some n,
               hints_used = Some (count_truthy (showHints s))\<rparr>"
    show ?thesis
    proof (cases "select_profile_single (uid u) (snd (insert_progress ?r (db s)))")
      case (Inl e)
      with assms have "db s' = snd (insert_progress ?r (db s))"
        by (auto simp: saveProgress_unfold [OF Some l] Let_def)
      then show ?thesis by blast
    next
      case (Inr ab)
      with assms have "db s' = snd (update_profile (uid u) now (or_zero (fst ab) + 1)
                                 (or_zero (snd ab) + points l) (snd (insert_progress ?r (db s))))"
        by (auto simp: saveProgress_unfold [OF Some l] Let_def case_prod_beta)
      then show ?thesis by blast
    qed
  qed
qed

section \<open>Scoring\<close>

text \<open>
  C2, as the code has it. A completion by a user who has a profile row
  awards exactly the lesson's points when the new totals fit the 32-bit
  \<open>INTEGER\<close> columns: \<open>saveProgress\<close> writes \<open>total_points\<close> as the old value
  (null read as 0) plus the points and \<open>total_lessons_completed\<close> as the old
  value plus 1, whatever the attempt count and the hints shown. When a new
  total does not fit, the store refuses the update and the row stays as it
  was. The rows of other users stay as they were either way.
\<close>

theorem saveProgress_awards_points:
  assumes "user s = Some u" "currentLesson s = Some l"
    and "filter (\<lambda>q. user_id q = uid u) (profiles (db s)) = [p]"
  shows "\<exists>s'. saveProgress now attemptCount s = Inr s'
           \<and> filter (\<lambda>q. user_id q = uid u) (profiles (db s'))
               = [if int4 (or_zero (total_lessons_completed p) + 1)
                     \<and> int4 (or_zero (total_points p) + points l)
                  then p\<lparr>total_lessons_completed := Some (or_zero (total_lessons_completed p) + 1),
                         total_points := Some (or_zero (total_points p) + points l),
                         updated_at := now\<rparr>
                  else p]
           \<and> filter (\<lambda>q. user_id q \<noteq> uid u) (profiles (db s'))
               = filter (\<lambda>q. user_id q \<noteq> uid u) (profiles (db s))
           \<and> length (profiles (db s')) = length (profiles (db s))"
proof -
  let ?r = "\<lparr>up_user_id = uid u, lesson_id = l_id l, completed_at = now,
             time_taken = None, up_attempts = Some attemptCount,
             hints_used = Some (count_truthy (showHints s))\<rparr>"
  let ?d1 = "snd (insert_progress ?r (db s))"
  let ?s' = "s\<lparr>db := snd (update_profile (uid u) now (or_zero (total_lessons_completed p) + 1)
                             (or_zero (total_points p) + points l) ?d1)\<rparr>"
  have rows: "filter (\<lambda>q. user_id q = uid u) (profiles ?d1) = [p]"
    by (simp add: insert_progress_profiles assms(3))
  have sel: "select_profile_single (uid u) ?d1 = Inr (total_lessons_completed p, total_points p)"
    by (rule select_profile_single_one [OF rows])
  have run: "saveProgress now attemptCount s = Inr ?s'"
    by (simp add: saveProgress_unfold [OF assms(1,2)] Let_def sel)
  have 1: "filter (\<lambda>q. user_id q = uid u) (profiles (db ?s'))
             = [if int4 (or_zero (total_lessons_completed p) + 1)
                   \<and> int4 (or_zero (total_points p) + points l)
                then p\<lparr>total_lessons_completed := Some (or_zero (total_lessons_completed p) + 1),
                       total_points := Some (or_zero (total_points p) + points l),
                       updated_at := now\<rparr>
                else p]"
    by (simp add: update_profile_rows_of rows)
  have 2: "filter (\<lambda>q. user_id q \<noteq> uid u) (profiles (db ?s'))
             = filter (\<lambda>q. user_id q \<noteq> uid u) (profiles (db s))"
    by (simp add: update_profile_others insert_progress_profiles)
  have 3: "length (profiles (db ?s')) = length (profiles (db s))"
    by (simp add: update_profile_length insert_progress_profiles)
  from run 1 2 3 show ?thesis by (intro exI [of _ ?s'] conjI)
qed

theorem saveProgress_awards_points_witness:
  "user state_solved = Some alice \<and> currentLesson state_solved = Some lesson_equality
   \<and> filter (\<lambda>q. user_id q = uid alice) (profiles (db state_solved)) = [profile_alice]
   \<and> (\<exists>s'. saveProgress 5 1 state_solved = Inr s'
        \<and> map total_points (filter (\<lambda>q. user_id q = uid alice) (profiles (db s'))) = [Some 100]
        \<and> map total_lessons_completed (filter (\<lambda>q. user_id q = uid alice) (profiles (db s')))
            = [Some 10])"
proof -
  have h1: "user state_solved = Some alice" by (simp add: state_solved_def)
  have h2: "currentLesson state_solved = Some lesson_equality" by (simp add: state_solved_def)
  have h3: "filter (\<lambda>q. user_id q = uid alice) (profiles (db state_solved)) = [profile_alice]"
    by (simp add: state_solved_def alice_def profile_alice_def profile_bob_def ascii_def)
  have fits: "int4 (or_zero (total_lessons_completed profile_alice) + 1)
                \<and> int4 (or_zero (total_points profile_alice) + points lesson_equality)"
    by (simp add: int4_def profile_alice_def lesson_equality_def)
  from saveProgress_awards_points [OF h1 h2 h3, of 5 1]
  obtain s' where "saveProgress 5 1 state_solved = Inr s'"
    and "filter (\<lambda>q. user_id q = uid alice) (profiles (db s'))
           = [if int4 (or_zero (total_lessons_completed profile_alice) + 1)
                 \<and> int4 (or_zero (total_points profile_alice) + points lesson_equality)
              then profile_alice\<lparr>total_lessons_completed :=
                               Some (or_zero (total_lessons_completed profile_alice) + 1),
                            total_points :=
                               Some (or_zero (total_points profile_alice) + points lesson_equality),
                            updated_at := 5\<rparr>
              else profile_alice]"
    by (elim exE conjE)
  then have "saveProgress 5 1 state_solved = Inr s'
        \<and> map total_points (filter (\<lambda>q. user_id q = uid alice) (profiles (db s'))) = [Some 100]
        \<and> map total_lessons_completed (filter (\<lambda>q. user_id q = uid alice) (profiles (db s')))
            = [Some 10]"
    using fits by (simp add: profile_alice_def lesson_equality_def)
  then have "\<exists>s'. saveProgress 5 1 state_solved = Inr s'
        \<and> map total_points (filter (\<lambda>q. user_id q = uid alice) (profiles (db s'))) = [Some 100]
        \<and> map total_lessons_completed (filter (\<lambda>q. user_id q = uid alice) (profiles (db s')))
            = [Some 10]" ..
  with h1 h2 h3 show ?thesis by (intro conjI)
qed

text \<open>
  C2 as stated fails at the top of the column's range: Alice has
  2147483647 points and completes a lesson worth 10; the store refuses the
  update, the page does not look at the refusal, and her points and her
  count of lessons are what they were.
\<close>

theorem points_overflow_counterexample:
  "map total_points (filter (\<lambda>q. user_id q = uid alice) (profiles (db state_full)))
     = [Some 2147483647]
   \<and> map total_lessons_completed (filter (\<lambda>q. user_id q = uid alice) (profiles (db state_full)))
     = [Some 9]
   \<and> points lesson_equality = 10
   \<and> map total_points
        (filter (\<lambda>q. user_id q = uid alice) (profiles (db (after_save 5 1 state_full))))
     \<noteq> [Some (2147483647 + 10)]
   \<and> map total_points
        (filter (\<lambda>q. user_id q = uid alice) (profiles (db (after_save 5 1 state_full))))
     = [Some 2147483647]
   \<and> map total_lessons_completed
        (filter (\<lambda>q. user_id q = uid alice) (profiles (db (after_save 5 1 state_full))))
     = [Some 9]"
  by (simp add: after_save_def saveProgress_def insert_progress_def select_profile_single_def
      update_profile_def int4_def count_truthy_def same_pair_def Let_def example_defs ascii_def)

text \<open>
  C3, as the code has it. A completion leaves the streak columns alone:
  after \<open>saveProgress\<close> the rows of every user have the \<open>current_streak\<close> and
  the \<open>best_streak\<close> they had before, on whatever day the completion falls,
  and so the two columns hold the values they held.
\<close>

theorem saveProgress_keeps_streaks:
  "\<exists>s'. saveProgress now attemptCount s = Inr s'
     \<and> (\<forall>v. map current_streak (filter (\<lambda>p. user_id p = v) (profiles (db s')))
             = map current_streak (filter (\<lambda>p. user_id p = v) (profiles (db s))))
     \<and> (\<forall>v. map best_streak (filter (\<lambda>p. user_id p = v) (profiles (db s')))
             = map best_streak (filter (\<lambda>p. user_id p = v) (profiles (db s))))
     \<and> mset (map current_streak (profiles (db s'))) = mset (map current_streak (profiles (db s)))
     \<and> mset (map best_streak (profiles (db s'))) = mset (map best_streak (profiles (db s)))"
proof -
  obtain s' where sp: "saveProgress now attemptCount s = Inr s'"
    using saveProgress_Inr by blast
  note cases = saveProgress_db_cases [OF sp]
  have 1: "map current_streak (filter (\<lambda>p. user_id p = v) (profiles (db s')))
             = map current_streak (filter (\<lambda>p. user_id p = v) (profiles (db s)))" for v
    using cases by (auto simp: update_profile_streaks insert_progress_profiles)
  have 2: "map best_streak (filter (\<lambda>p. user_id p = v) (profiles (db s')))
             = map best_streak (filter (\<lambda>p. user_id p = v) (profiles (db s)))" for v
    using cases by (auto simp: update_profile_streaks insert_progress_profiles)
  have 3: "mset (map current_streak (profiles (db s'))) = mset (map current_streak (profiles (db s)))"
    using cases
    by (auto simp: update_profile_streaks_mset insert_progress_profiles simp del: mset_map)
  have 4: "mset (map best_streak (profiles (db s'))) = mset (map best_streak (profiles (db s)))"
    using cases
    by (auto simp: update_profile_streaks_mset insert_progress_profiles simp del: mset_map)
  from sp 1 2 3 4 show ?thesis by (intro exI [of _ s'] conjI allI)
qed

theorem saveProgress_keeps_streaks_witness:
  "map current_streak
      (filter (\<lambda>p. user_id p = uid alice) (profiles (db (after_save 5 1 state_solved)))) = [Some 9]
   \<and> map best_streak
      (filter (\<lambda>p. user_id p = uid alice) (profiles (db (after_save 5 1 state_solved)))) = [Some 9]
   \<and> map current_streak
      (filter (\<lambda>p. user_id p = uid bob) (profiles (db (after_save 5 1 state_solved)))) = [Some 0]"
proof -
  from saveProgress_keeps_streaks [of 5 1 state_solved]
  obtain s' where sp: "saveProgress 5 1 state_solved = Inr s'"
    and c: "\<forall>v. map current_streak (filter (\<lambda>p. user_id p = v) (profiles (db s')))
             = map current_streak (filter (\<lambda>p. user_id p = v) (profiles (db state_solved)))"
    and b: "\<forall>v. map best_streak (filter (\<lambda>p. user_id p = v) (profiles (db s')))
             = map best_streak (filter (\<lambda>p. user_id p = v) (profiles (db state_solved)))"
    by (elim exE conjE)
  from sp have a: "after_save 5 1 state_solved = s'" by (simp add: after_save_def)
  have 1: "map current_streak (filter (\<lambda>p. user_id p = uid alice) (profiles (db s'))) = [Some 9]"
    unfolding c [rule_format]
    by (simp add: state_solved_def alice_def profile_alice_def profile_bob_def ascii_def)
  have 2: "map best_streak (filter (\<lambda>p. user_id p = uid alice) (profiles (db s'))) = [Some 9]"
    unfolding b [rule_format]
    by (simp add: state_solved_def alice_def profile_alice_def profile_bob_def ascii_def)
  have 3: "map current_streak (filter (\<lambda>p. user_id p = uid bob) (profiles (db s'))) = [Some 0]"
    unfolding c [rule_format]
    by (simp add: state_solved_def bob_def profile_alice_def profile_bob_def ascii_def)
  from 1 2 3 show ?thesis unfolding a by (intro conjI)
qed

text \<open>
  C3 as stated fails: Alice's streak is 9 before the completion; the claim
  asks for 10 (same or next day) or 1 (otherwise) afterwards, and it is
  neither: it is 9.
\<close>

theorem streak_update_counterexample:
  "map current_streak (filter (\<lambda>p. user_id p = uid alice) (profiles (db state_solved)))
     = [Some 9]
   \<and> map current_streak
        (filter (\<lambda>p. user_id p = uid alice) (profiles (db (after_save 5 1 state_solved))))
     \<noteq> [Some (9 + 1)]
   \<and> map current_streak
        (filter (\<lambda>p. user_id p = uid alice) (profiles (db (after_save 5 1 state_solved))))
     \<noteq> [Some 1]
   \<and> map current_streak
        (filter (\<lambda>p. user_id p = uid alice) (profiles (db (after_save 5 1 state_solved))))
     = [Some 9]"
  by (simp add: after_save_def saveProgress_def insert_progress_def select_profile_single_def
      update_profile_def int4_def count_truthy_def same_pair_def Let_def example_defs ascii_def)

section \<open>Recording a completion\<close>

text \<open>
  When the store already holds a record for the user and the lesson, the
  insert of \<open>saveProgress\<close> is refused by the unique pair and
  \<open>user_progress\<close> stays as it was: still one record for the pair, the
  earlier one. Nothing is reported, the function resolves as usual.
\<close>

lemma saveProgress_keeps_earlier_record:
  assumes "user s = Some u" "currentLesson s = Some l"
    and "filter (\<lambda>x. up_user_id x = uid u \<and> lesson_id x = l_id l) (user_progress (db s)) = [r]"
  shows "\<exists>s'. saveProgress now attemptCount s = Inr s'
           \<and> user_progress (db s') = user_progress (db s)
           \<and> filter (\<lambda>x. up_user_id x = uid u \<and> lesson_id x = l_id l) (user_progress (db s')) = [r]
           \<and> console_errors s' = console_errors s"
proof -
  let ?r = "\<lparr>up_user_id = uid u, lesson_id = l_id l, completed_at = now,
             time_taken = None, up_attempts = Some attemptCount,
             hints_used = Some (count_truthy (showHints s))\<rparr>"
  have sp': "same_pair ?r = (\<lambda>x. up_user_id x = uid u \<and> lesson_id x = l_id l)"
    by (simp add: same_pair_def fun_eq_iff)
  have d1: "snd (insert_progress ?r (db s)) = db s"
    by (rule insert_progress_present) (simp add: sp' assms(3))
  obtain s' where sp: "saveProgress now attemptCount s = Inr s'"
    using saveProgress_Inr by blast
  from sp have "user_progress (db s') = user_progress (db s)"
    unfolding saveProgress_unfold [OF assms(1,2)] Let_def d1
    by (auto simp: update_profile_user_progress split: sum.splits prod.splits)
  moreover have "console_errors s' = console_errors (s\<lparr>db := db s'\<rparr>)"
    by (rule arg_cong [OF saveProgress_only_db [OF sp]])
  ultimately show ?thesis using sp assms(3) by (intro exI [of _ s'] conjI) simp_all
qed

text \<open>
  C4 asks that a later completion of the same lesson replaces the record of
  the earlier one. It does not: Alice, whose completion at time 1 with three
  attempts is in the store, completes the lesson again at time 5 in one
  attempt; afterwards the store holds the record of time 1 with three
  attempts, and not the later one, while her points went from 90 to 100.
\<close>

theorem repeat_completion_not_recorded:
  "user_progress (db state_repeat) = [earlier_record]
   \<and> user_progress (db (after_save 5 1 state_repeat)) \<noteq> [later_record]
   \<and> map completed_at (user_progress (db (after_save 5 1 state_repeat))) = [1]
   \<and> map up_attempts (user_progress (db (after_save 5 1 state_repeat))) = [Some 3]
   \<and> map total_points (profiles (db state_repeat)) = [Some 90, Some 100]
   \<and> map total_points (profiles (db (after_save 5 1 state_repeat))) = [Some 100, Some 100]"
  by (simp add: after_save_def saveProgress_def insert_progress_def select_profile_single_def
      update_profile_def int4_def count_truthy_def same_pair_def Let_def example_defs ascii_def)

text \<open>
  C7, as the code has it. When the user has no profile row, \<open>saveProgress\<close>
  skips the update and resolves: no error reaches the caller and nothing is
  logged, the profiles are as they were, and the record of the completion,
  inserted before, stays in \<open>user_progress\<close>.
\<close>

theorem saveProgress_without_profile:
  assumes "user s = Some u" "currentLesson s = Some l"
    and "filter (\<lambda>q. user_id q = uid u) (profiles (db s)) = []"
  shows "\<exists>s'. saveProgress now attemptCount s = Inr s'
           \<and> profiles (db s') = profiles (db s)
           \<and> user_progress (db s') =
               user_progress (snd (insert_progress
                 \<lparr>up_user_id = uid u, lesson_id = l_id l, completed_at = now,
                  time_taken = None, up_attempts = Some attemptCount,
                  hints_used = Some (count_truthy (showHints s))\<rparr> (db s)))
           \<and> filter (\<lambda>x. up_user_id x = uid u \<and> lesson_id x = l_id l) (user_progress (db s')) \<noteq> []
           \<and> console_errors s' = console_errors s \<and> toasts s' = toasts s"
proof -
  let ?r = "\<lparr>up_user_id = uid u, lesson_id = l_id l, completed_at = now,
             time_taken = None, up_attempts = Some attemptCount,
             hints_used = Some (count_truthy (showHints s))\<rparr>"
  let ?d1 = "snd (insert_progress ?r (db s))"
  let ?s' = "s\<lparr>db := ?d1\<rparr>"
  have sel: "select_profile_single (uid u) ?d1 = Inl NoRows"
    by (rule select_profile_single_none) (simp add: insert_progress_profiles assms(3))
  have run: "saveProgress now attemptCount s = Inr ?s'"
    by (simp add: saveProgress_unfold [OF assms(1,2)] Let_def sel)
  have sp': "same_pair ?r = (\<lambda>x. up_user_id x = uid u \<and> lesson_id x = l_id l)"
    by (simp add: same_pair_def fun_eq_iff)
  have there: "filter (\<lambda>x. up_user_id x = uid u \<and> lesson_id x = l_id l) (user_progress ?d1) \<noteq> []"
  proof (cases "filter (same_pair ?r) (user_progress (db s)) = []")
    case True
    from insert_progress_absent [OF True] show ?thesis by simp
  next
    case False
    from insert_progress_present [OF False] False show ?thesis by (simp add: sp')
  qed
  from run there show ?thesis
    by (intro exI [of _ ?s'] conjI) (simp_all add: insert_progress_profiles)
qed

theorem saveProgress_without_profile_witness:
  "user state_no_profile = Some alice \<and> currentLesson state_no_profile = Some lesson_equality
   \<and> filter (\<lambda>q. user_id q = uid alice) (profiles (db state_no_profile)) = []
   \<and> profiles (db (after_save 5 1 state_no_profile)) = [profile_bob]"
proof -
  have h1: "user state_no_profile = Some alice"
    by (simp add: state_no_profile_def state_solved_def)
  have h2: "currentLesson state_no_profile = Some lesson_equality"
    by (simp add: state_no_profile_def state_solved_def)
  have pr: "profiles (db state_no_profile) = [profile_bob]"
    by (simp add: state_no_profile_def)
  have h3: "filter (\<lambda>q. user_id q = uid alice) (profiles (db state_no_profile)) = []"
    unfolding pr by (simp add: alice_def profile_bob_def ascii_def)
  from saveProgress_without_profile [OF h1 h2 h3, of 5 1]
  obtain s' where sp: "saveProgress 5 1 state_no_profile = Inr s'"
    and p: "profiles (db s') = profiles (db state_no_profile)"
    by (elim exE conjE)
  from sp have "after_save 5 1 state_no_profile = s'" by (simp add: after_save_def)
  with p pr have "profiles (db (after_save 5 1 state_no_profile)) = [profile_bob]" by simp
  with h1 h2 h3 show ?thesis by (intro conjI)
qed

text \<open>
  C7 as stated fails: with no profile row for Alice, \<open>saveProgress\<close> does not
  end in an error; it resolves, and the console stays empty.
\<close>

theorem profile_not_found_counterexample:
  "filter (\<lambda>q. user_id q = uid alice) (profiles (db state_no_profile)) = []
   \<and> \<not> isl (saveProgress 5 1 state_no_profile)
   \<and> console_errors (after_save 5 1 state_no_profile) = []"
  by (simp add: after_save_def saveProgress_def insert_progress_def select_profile_single_def
      update_profile_def int4_def count_truthy_def same_pair_def Let_def example_defs ascii_def)

section \<open>The simulated run\<close>

lemma generic_line_hd: "\<not> isWhiteSpace (hd (ascii ''Code executed successfully!\<newline>'' @ t))"
  by (simp add: ascii_def isWhiteSpace_def)

lemma generic_line_trim:
  assumes "trim e \<noteq> []"
  shows "trim (ascii ''Code executed successfully!\<newline>'' @ trim e)
           = ascii ''Code executed successfully!\<newline>'' @ trim e"
proof (rule trim_fixed)
  show "ascii ''Code executed successfully!\<newline>'' @ trim e \<noteq> []"
    using assms by simp
  show "\<not> isWhiteSpace (hd (ascii ''Code executed successfully!\<newline>'' @ trim e))"
    by (rule generic_line_hd)
  show "\<not> isWhiteSpace (last (ascii ''Code executed successfully!\<newline>'' @ trim e))"
    using assms trim_last [OF assms] by simp
qed

lemma runCode_generic:
  assumes "currentLesson s = Some l"
    and "\<not> (language l = ascii ''python'' \<and> title l = ascii ''Off-by-One Error in Loop'')"
  shows "runCode s = s\<lparr>output_txt := ascii ''Code executed successfully!\<newline>'' @ trim (expected_output l),
                       isRunning := False\<rparr>"
  using assms by (auto simp: runCode_def Let_def)

text \<open>
  C10, as the code has it. For a lesson other than the Python lesson
  "Off-by-One Error in Loop", \<open>runCode\<close> sets the output to the fixed line
  followed by the lesson's expected output trimmed of leading and trailing
  white space, whatever the code is; and when that trimmed expected output is
  not empty, checking this output fails.
\<close>

theorem runCode_generic_never_passes:
  assumes "currentLesson s = Some l"
    and "language l \<noteq> ascii ''python'' \<or> title l \<noteq> ascii ''Off-by-One Error in Loop''"
  shows "output_txt (runCode (s\<lparr>code := c\<rparr>))
           = ascii ''Code executed successfully!\<newline>'' @ trim (expected_output l)
       \<and> (trim (expected_output l) \<noteq> [] \<longrightarrow>
            checkSolution_verdict now (runCode (s\<lparr>code := c\<rparr>)) = Fail)"
proof -
  let ?P = "ascii ''Code executed successfully!\<newline>''"
  let ?s = "s\<lparr>code := c\<rparr>"
  have cl: "currentLesson ?s = Some l" using assms(1) by simp
  have ng: "\<not> (language l = ascii ''python'' \<and> title l = ascii ''Off-by-One Error in Loop'')"
    using assms(2) by blast
  note rc = runCode_generic [OF cl ng]
  have out: "output_txt (runCode ?s) = ?P @ trim (expected_output l)"
    unfolding rc by simp
  have cl': "currentLesson (runCode ?s) = Some l"
    unfolding rc using assms(1) by simp
  have "checkSolution_verdict now (runCode ?s) = Fail" if ne: "trim (expected_output l) \<noteq> []"
  proof -
    have "trim (output_txt (runCode ?s)) = ?P @ trim (expected_output l)"
      unfolding out by (rule generic_line_trim [OF ne])
    moreover have "length (?P @ trim (expected_output l)) \<noteq> length (trim (expected_output l))"
      by (simp add: ascii_def)
    ultimately have "trim (output_txt (runCode ?s)) \<noteq> trim (expected_output l)"
      by auto
    then show ?thesis
      by (simp add: checkSolution_verdict_def checkSolution_last_toast [OF cl'])
  qed
  with out show ?thesis by simp
qed

theorem runCode_generic_never_passes_witness:
  "currentLesson state_cpp = Some lesson_newline
   \<and> language lesson_newline \<noteq> ascii ''python''
   \<and> trim (expected_output lesson_newline) \<noteq> []
   \<and> output_txt (runCode (state_cpp\<lparr>code := ascii ''delete ptr;''\<rparr>))
       = ascii ''Code executed successfully!\<newline>42''
   \<and> checkSolution_verdict 5 (runCode (state_cpp\<lparr>code := ascii ''delete ptr;''\<rparr>)) = Fail"
proof -
  have h1: "currentLesson state_cpp = Some lesson_newline"
    by (simp add: state_cpp_def state_solved_def)
  have h2': "language lesson_newline \<noteq> ascii ''python''"
    by (simp add: lesson_newline_def ascii_def)
  then have h2: "language lesson_newline \<noteq> ascii ''python''
              \<or> title lesson_newline \<noteq> ascii ''Off-by-One Error in Loop''" ..
  have t: "trim (expected_output lesson_newline) = ascii ''42''"
    by (simp add: lesson_newline_def trim_def ascii_def isWhiteSpace_def)
  have h3: "trim (expected_output lesson_newline) \<noteq> []"
    unfolding t by (simp add: ascii_def)
  note th = runCode_generic_never_passes [OF h1 h2, of "ascii ''delete ptr;''" 5]
  from th have o: "output_txt (runCode (state_cpp\<lparr>code := ascii ''delete ptr;''\<rparr>))
       = ascii ''Code executed successfully!\<newline>'' @ ascii ''42''"
    unfolding t by (rule conjunct1)
  have o': "output_txt (runCode (state_cpp\<lparr>code := ascii ''delete ptr;''\<rparr>))
       = ascii ''Code executed successfully!\<newline>42''"
    unfolding o by (simp add: ascii_def)
  from th h3 have v: "checkSolution_verdict 5 (runCode (state_cpp\<lparr>code := ascii ''delete ptr;''\<rparr>)) = Fail"
    by (elim conjE impE)
  from h1 h2' h3 o' v show ?thesis by (intro conjI)
qed

text \<open>
  C10 as stated fails where the expected output has white space at an end:
  for the C++ lesson, whose expected output ends with a newline, the output
  set is not the fixed line followed by the expected output.
\<close>

theorem runCode_output_counterexample:
  "currentLesson state_cpp = Some lesson_newline
   \<and> language lesson_newline \<noteq> ascii ''python''
   \<and> output_txt (runCode state_cpp)
       \<noteq> ascii ''Code executed successfully!\<newline>'' @ expected_output lesson_newline"
  by (simp add: runCode_def Let_def trim_def isWhiteSpace_def example_defs ascii_def)

section \<open>The leaderboard\<close>

lemma desc_le_total: "desc_le a b \<or> desc_le b a"
  by (cases a; cases b) auto

lemma desc_le_trans: "desc_le a b \<Longrightarrow> desc_le b c \<Longrightarrow> desc_le a c"
  by (cases a; cases b; cases c) auto

lemma set_insert_desc: "set (insert_desc p qs) = insert p (set qs)"
  by (induction qs) auto

lemma mset_insert_desc: "mset (insert_desc p qs) = add_mset p (mset qs)"
  by (induction qs) auto

lemma sorted_insert_desc:
  assumes "sorted_wrt (\<lambda>a b. desc_le (total_points a) (total_points b)) qs"
  shows "sorted_wrt (\<lambda>a b. desc_le (total_points a) (total_points b)) (insert_desc p qs)"
  using assms
proof (induction qs)
  case Nil
  then show ?case by simp
next
  case (Cons q qs)
  show ?case
  proof (cases "desc_le (total_points p) (total_points q)")
    case True
    with Cons.prems show ?thesis by (auto intro: desc_le_trans)
  next
    case False
    then have "desc_le (total_points q) (total_points p)"
      using desc_le_total by blast
    with False Cons show ?thesis by (auto simp: set_insert_desc)
  qed
qed

lemma ties_insert_desc:
  "filter (\<lambda>r. total_points r = k) (insert_desc p qs) = filter (\<lambda>r. total_points r = k) (p # qs)"
proof (induction qs)
  case Nil
  then show ?case by simp
next
  case (Cons q qs)
  show ?case
  proof (cases "desc_le (total_points p) (total_points q)")
    case True
    then show ?thesis by simp
  next
    case False
    then have "total_points p \<noteq> total_points q"
      using desc_le_total [of "total_points q" "total_points q"] by auto
    with False Cons show ?thesis by auto
  qed
qed

lemma mset_order_by: "mset (order_by_total_points_desc rows) = mset rows"
  by (induction rows) (simp_all add: order_by_total_points_desc_def mset_insert_desc)

lemma sorted_order_by:
  "sorted_wrt (\<lambda>a b. desc_le (total_points a) (total_points b)) (order_by_total_points_desc rows)"
  by (induction rows) (simp_all add: order_by_total_points_desc_def sorted_insert_desc)

lemma ties_order_by:
  "filter (\<lambda>r. total_points r = k) (order_by_total_points_desc rows)
     = filter (\<lambda>r. total_points r = k) rows"
  by (induction rows) (simp_all add: order_by_total_points_desc_def ties_insert_desc)

lemma length_order_by: "length (order_by_total_points_desc rows) = length rows"
  using mset_order_by [of rows] by (metis size_mset)

lemma fetchLeaderboard_nth:
  assumes "i < length (fetchLeaderboard rows)"
  shows "fetchLeaderboard rows ! i = with_rank (i, take 50 (order_by_total_points_desc rows) ! i)"
  using assms by (simp add: fetchLeaderboard_def Let_def nth_enumerate_eq)

text \<open>
  C6, as the code has it. The leaderboard lists the profiles by
  \<open>total_points\<close> descending (a null before every number); profiles with
  equal points stay in the order in which the store holds them, which
  creation time does not decide; every entry's rank is its 1-based position;
  and there are at most 50 entries, the limit being fixed.
\<close>

theorem fetchLeaderboard_ranking:
  "sorted_wrt (\<lambda>a b. desc_le (lb_total_points a) (lb_total_points b)) (fetchLeaderboard rows)
   \<and> (\<forall>i < length (fetchLeaderboard rows). rank (fetchLeaderboard rows ! i) = int i + 1)
   \<and> length (fetchLeaderboard rows) = min 50 (length rows)
   \<and> map lb_user_id (fetchLeaderboard rows)
       = map user_id (take 50 (order_by_total_points_desc rows))
   \<and> mset (order_by_total_points_desc rows) = mset rows
   \<and> (\<forall>k. filter (\<lambda>r. total_points r = k) (order_by_total_points_desc rows)
            = filter (\<lambda>r. total_points r = k) rows)"
proof -
  let ?data = "take 50 (order_by_total_points_desc rows)"
  have sd: "sorted_wrt (\<lambda>a b. desc_le (total_points a) (total_points b)) ?data"
    by (rule sorted_wrt_take [OF sorted_order_by])
  have "sorted_wrt (\<lambda>x y. desc_le (total_points (snd x)) (total_points (snd y)))
          (enumerate 0 ?data)"
    using sd sorted_wrt_map [of "\<lambda>a b. desc_le (total_points a) (total_points b)" snd
        "enumerate 0 ?data"]
    by simp
  then have 1: "sorted_wrt (\<lambda>a b. desc_le (lb_total_points a) (lb_total_points b))
                  (fetchLeaderboard rows)"
    by (simp add: fetchLeaderboard_def Let_def sorted_wrt_map with_rank_def)
  have 2: "\<forall>i < length (fetchLeaderboard rows). rank (fetchLeaderboard rows ! i) = int i + 1"
    by (simp add: fetchLeaderboard_nth with_rank_def)
  have 3: "length (fetchLeaderboard rows) = min 50 (length rows)"
    by (simp add: fetchLeaderboard_def Let_def length_order_by min.commute)
  have "map lb_user_id (fetchLeaderboard rows) = map user_id (map snd (enumerate 0 ?data))"
    by (simp add: fetchLeaderboard_def Let_def with_rank_def comp_def del: map_snd_enumerate)
  then have 4: "map lb_user_id (fetchLeaderboard rows) = map user_id ?data"
    by simp
  from 1 2 3 4 mset_order_by ties_order_by show ?thesis by blast
qed

theorem fetchLeaderboard_ranking_witness:
  "map (\<lambda>e. (lb_user_id e, rank e)) (fetchLeaderboard [profile_alice, profile_bob])
     = [(user_id profile_bob, 1), (user_id profile_alice, 2)]"
proof -
  let ?lb = "fetchLeaderboard [profile_alice, profile_bob]"
  note t = fetchLeaderboard_ranking [of "[profile_alice, profile_bob]"]
  have ord: "order_by_total_points_desc [profile_alice, profile_bob] = [profile_bob, profile_alice]"
    by (simp add: order_by_total_points_desc_def profile_alice_def profile_bob_def)
  from t have len: "length ?lb = 2" by simp
  from t have ids: "map lb_user_id ?lb = [user_id profile_bob, user_id profile_alice]"
    unfolding ord by simp
  from t len have r0: "rank (?lb ! 0) = 1" by (elim conjE allE [of _ 0]) simp
  from t len have r1: "rank (?lb ! 1) = 2" by (elim conjE allE [of _ 1]) simp
  from len obtain a b where ab: "?lb = [a, b]"
    by (cases ?lb; cases "tl ?lb") auto
  from ids r0 r1 show ?thesis unfolding ab by simp
qed

text \<open>
  C6 as stated fails on the tie: two profiles with 100 points, the one
  created first held second by the store; the leaderboard ranks the later
  one first.
\<close>

theorem leaderboard_tie_counterexample:
  "total_points profile_early = total_points profile_late
   \<and> created_at profile_early < created_at profile_late
   \<and> map (\<lambda>e. (lb_user_id e, rank e)) (fetchLeaderboard [profile_late, profile_early])
       = [(user_id profile_late, 1), (user_id profile_early, 2)]"
  by (simp add: fetchLeaderboard_def order_by_total_points_desc_def with_rank_def Let_def
      enumerate_eq_zip upt_rec profile_early_def profile_late_def)

section \<open>The per-day activity series\<close>


















section \<open>Badge grants\<close>

lemma owns_iff: "owns ubs u b = ((u, b) \<in> set (map (\<lambda>r. (ub_user_id r, badge_id r)) ubs))"
  by (auto simp: owns_def filter_empty_conv)

lemma grantBadge_unique:
  "unique_user_badge ubs \<Longrightarrow> unique_user_badge (snd (grantBadge now u b ubs))"
  by (auto simp: grantBadge_def unique_user_badge_def owns_iff)

lemma owns_grantBadge:
  "owns (snd (grantBadge now u b ubs)) u' b' = (owns ubs u' b' \<or> (u' = u \<and> b' = b))"
  by (auto simp: grantBadge_def owns_iff)

lemma grant_all_unique:
  "unique_user_badge ubs \<Longrightarrow> unique_user_badge (grant_all now u bs ubs)"
  unfolding grant_all_def
  by (induction bs arbitrary: ubs) (simp_all add: grantBadge_unique)

lemma owns_grant_all:
  "owns (grant_all now u bs ubs) u' b' = (owns ubs u' b' \<or> (u' = u \<and> b' \<in> b_id ` set bs))"
  unfolding grant_all_def
  by (induction bs arbitrary: ubs) (auto simp: owns_grantBadge)

lemma run_badge_evaluation_unique:
  "unique_user_badge ubs \<Longrightarrow>
     unique_user_badge (run_badge_evaluation badges catalog u profile history now ubs)"
  by (simp add: run_badge_evaluation_def grant_all_unique)

lemma runs_unique:
  "unique_user_badge ubs \<Longrightarrow>
     unique_user_badge
       (foldl (\<lambda>t now. run_badge_evaluation badges catalog u profile history now t) ubs nows)"
  by (induction nows arbitrary: ubs) (simp_all add: run_badge_evaluation_unique)

lemma unique_rows:
  "unique_user_badge ubs \<Longrightarrow> length (badge_rows ubs u b) \<le> 1"
proof (induction ubs)
  case Nil
  then show ?case by (simp add: badge_rows_def)
next
  case (Cons r ubs)
  then have ih: "length (badge_rows ubs u b) \<le> 1"
    by (simp add: unique_user_badge_def)
  show ?case
  proof (cases "ub_user_id r = u \<and> badge_id r = b")
    case True
    with Cons.prems have "(u, b) \<notin> set (map (\<lambda>r. (ub_user_id r, badge_id r)) ubs)"
      by (auto simp: unique_user_badge_def)
    then have "badge_rows ubs u b = []"
      by (auto simp: badge_rows_def filter_empty_conv)
    with True show ?thesis by (simp add: badge_rows_def)
  next
    case False
    with ih show ?thesis by (auto simp: badge_rows_def)
  qed
qed

lemma nothing_new_after_run:
  "evaluateBadges badges catalog u profile history
     (run_badge_evaluation badges catalog u profile history now ubs) = []"
  by (auto simp: evaluateBadges_def run_badge_evaluation_def owns_grant_all filter_empty_conv)

text \<open>
  C8. Starting from a table that respects the unique pair, any number of
  badge evaluations against the same statistics leaves at most one row for
  every user and badge; a second evaluation finds nothing new and changes
  nothing; and a repeated grant is not an error.
\<close>

theorem badge_evaluation_idempotent:
  assumes "unique_user_badge ubs"
  shows "length (badge_rows
            (foldl (\<lambda>t now. run_badge_evaluation badges catalog u profile history now t) ubs nows)
            u' b) \<le> 1
       \<and> evaluateBadges badges catalog u profile history
            (run_badge_evaluation badges catalog u profile history now ubs) = []
       \<and> run_badge_evaluation badges catalog u profile history now'
            (run_badge_evaluation badges catalog u profile history now ubs)
           = run_badge_evaluation badges catalog u profile history now ubs
       \<and> fst (grantBadge now u b ubs) = None"
proof -
  have 1: "length (badge_rows
            (foldl (\<lambda>t now. run_badge_evaluation badges catalog u profile history now t) ubs nows)
            u' b) \<le> 1"
    by (rule unique_rows [OF runs_unique [OF assms]])
  have 2: "evaluateBadges badges catalog u profile history
            (run_badge_evaluation badges catalog u profile history now ubs) = []"
    by (rule nothing_new_after_run)
  have 3: "run_badge_evaluation badges catalog u profile history now'
            (run_badge_evaluation badges catalog u profile history now ubs)
           = run_badge_evaluation badges catalog u profile history now ubs"
    by (subst run_badge_evaluation_def) (simp add: 2 grant_all_def)
  have 4: "fst (grantBadge now u b ubs) = None"
    by (simp add: grantBadge_def)
  from 1 2 3 4 show ?thesis by (intro conjI)
qed

theorem badge_evaluation_idempotent_witness:
  "unique_user_badge []
   \<and> length (badge_rows
        (foldl (\<lambda>t now. run_badge_evaluation [badge_first] [lesson_equality] (ascii ''user-a'')
                          profile_alice [] now t) [] [5, 6])
        (ascii ''user-a'') (ascii ''badge-1'')) = 1"
proof -
  let ?t = "foldl (\<lambda>t now. run_badge_evaluation [badge_first] [lesson_equality] (ascii ''user-a'')
                          profile_alice [] now t) [] [5, 6]"
  have h: "unique_user_badge []" by (simp add: unique_user_badge_def)
  have le: "length (badge_rows ?t (ascii ''user-a'') (ascii ''badge-1'')) \<le> 1"
    by (rule conjunct1 [OF badge_evaluation_idempotent [OF h, where badges = "[badge_first]"
          and catalog = "[lesson_equality]" and u = "ascii ''user-a''" and profile = profile_alice
          and history = "[]" and nows = "[5, 6]" and u' = "ascii ''user-a''"
          and b = "ascii ''badge-1''"]])
  have "badge_rows ?t (ascii ''user-a'') (ascii ''badge-1'') \<noteq> []"
    by (simp add: run_badge_evaluation_def evaluateBadges_def grant_all_def grantBadge_def
        owns_def badge_satisfied_def badge_rows_def badge_first_def profile_alice_def)
  then have "1 \<le> length (badge_rows ?t (ascii ''user-a'') (ascii ''badge-1''))"
    by (cases "badge_rows ?t (ascii ''user-a'') (ascii ''badge-1'')") simp_all
  with le have "length (badge_rows ?t (ascii ''user-a'') (ascii ''badge-1'')) = 1" by simp
  with h show ?thesis by (intro conjI)
qed

end
